theory Spec2Isabelle
  imports Main "HOL-Library.Sublist"
begin

section \<open>The Sphinx configuration file \<^verbatim>\<open>source/conf.py\<close>\<close>

text \<open>
  The file is a Sphinx configuration module: a sequence of module-level assignments that
  Sphinx reads by name, and one callback, \<^verbatim>\<open>setup(app)\<close>, that registers a theme
  switcher through the external package \<^verbatim>\<open>sphinx_utils\<close>.

  Python \<^verbatim>\<open>str\<close> values are modelled as \<^typ>\<open>string\<close>, holding the UTF-8 encoding the
  file declares for itself (\<^verbatim>\<open># -*- coding: utf-8 -*-\<close>). Every string of the file is
  ASCII but the two icons, which are three bytes each.
\<close>

subsection \<open>Python values and exceptions\<close>

datatype pyval =
    PyStr string
  | PyBool bool
  | PyInt int
  | PyNone
  | PyList "pyval list"
  | PyTuple "pyval list"
  | PyDict "(pyval \<times> pyval) list"

text \<open>
  The exceptions the interpreter itself can raise in the constructs the file uses.
  \<open>NotModelled\<close> is no Python exception: it marks a format string with a replacement
  field other than \<^verbatim>\<open>{}\<close>, which \<open>py_format\<close> below does not cover.
\<close>

datatype py_error = NameError string | TypeError | IndexError | ValueError | NotModelled

text \<open>What a call of \<^verbatim>\<open>setup\<close> can raise: an exception of the interpreter, or whatever
  the external package raised (a value of its own type \<open>'e\<close>).\<close>

datatype 'e raised = Python py_error | External 'e

subsection \<open>\<^verbatim>\<open>str.format\<close> with automatically numbered fields\<close>

text \<open>
  \<^verbatim>\<open>template.format(*args)\<close> for templates built of literal text, the escapes
  \<^verbatim>\<open>{{\<close> and \<^verbatim>\<open>}}\<close>, and the field \<^verbatim>\<open>{}\<close>, which takes the next positional
  argument (an \<^verbatim>\<open>IndexError\<close> when there is none left). A lone brace is a
  \<^verbatim>\<open>ValueError\<close>. The arguments are strings, which \<^verbatim>\<open>{}\<close> inserts unchanged.
  The template is read left to right and the first error is the one raised.
\<close>

definition prepend :: "string \<Rightarrow> py_error + string \<Rightarrow> py_error + string" where
  "prepend p r = (case r of Inl e \<Rightarrow> Inl e | Inr s \<Rightarrow> Inr (p @ s))"

fun py_format :: "string \<Rightarrow> string list \<Rightarrow> py_error + string" where
  "py_format [] args = Inr []"
| "py_format (c # t) args =
     (if c = CHR ''{'' then
        (case t of
           [] \<Rightarrow> Inl ValueError
         | d # u \<Rightarrow>
             if d = CHR ''{'' then prepend ''{'' (py_format u args)
             else if d = CHR ''}'' then
               (case args of
                  [] \<Rightarrow> Inl IndexError
                | a # rest \<Rightarrow> prepend a (py_format u rest))
             else Inl NotModelled)
      else if c = CHR ''}'' then
        (case t of
           [] \<Rightarrow> Inl ValueError
         | d # u \<Rightarrow>
             if d = CHR ''}'' then prepend ''}'' (py_format u args)
             else Inl ValueError)
      else prepend [c] (py_format t args))"

subsection \<open>The syntax theme constants (lines 13 and 14)\<close>

text \<open>
  \<^verbatim>\<open>setup\<close> reads the two names when it runs. The module binds each once and
  \<^verbatim>\<open>setup\<close> assigns no module-level name, so what it reads are the values of lines 13
  and 14.
\<close>

definition DEFAULT_LIGHT_SYNTAX_THEME :: string where
  "DEFAULT_LIGHT_SYNTAX_THEME = ''friendly''"

definition DEFAULT_DARK_SYNTAX_THEME :: string where
  "DEFAULT_DARK_SYNTAX_THEME = ''monokai''"

subsection \<open>The external package \<^verbatim>\<open>sphinx_utils\<close>\<close>

text \<open>
  The arguments of \<^verbatim>\<open>augment.theme_switcher\<close>: the positional list of theme
  descriptors (each a dict, kept as an association list in the order of its literal) and
  the three keyword arguments.
\<close>

record theme_switcher_args =
  themes :: "(string \<times> string) list list"
  syntax_themes :: "string list"
  default_theme :: string
  default_syntax_theme :: string

text \<open>
  The package is not part of the repository, so its two entry points are parameters:
  arbitrary functions of their arguments and of the state \<open>'w\<close> of the build tool, which
  either raise (\<open>Inl\<close>) or return (\<open>Inr\<close>) and leave a new state. \<open>augment\<close> stands for
  \<^verbatim>\<open>sphinx_utils.augment(app, name)\<close> and \<open>theme_switcher\<close> for the method of the
  object it returns, including the lookup of that method.
\<close>

record ('app, 'aug, 'e, 'r, 'w) sphinx_utils_api =
  augment :: "'app \<Rightarrow> string \<Rightarrow> 'w \<Rightarrow> ('e + 'aug) \<times> 'w"
  theme_switcher :: "'aug \<Rightarrow> theme_switcher_args \<Rightarrow> 'w \<Rightarrow> ('e + 'r) \<times> 'w"

text \<open>The external calls a run makes, in order, with their arguments.\<close>

datatype ('app, 'aug) call =
    Call_augment 'app string
  | Call_theme_switcher 'aug theme_switcher_args

text \<open>
  The state a call of \<^verbatim>\<open>setup\<close> runs in: the namespace of the configuration module (the
  variables bound by its assignments, in the order of a Python dict) and the state of the
  build tool.
\<close>

type_synonym namespace = "(string \<times> pyval) list"

record 'w build_state =
  globals :: namespace
  world :: 'w

subsection \<open>The callback \<^verbatim>\<open>setup(app)\<close> (lines 17 to 37)\<close>

text \<open>
  The result is what the call raised or \<open>Inr ()\<close> for the \<^verbatim>\<open>None\<close> it returns, the
  external calls it made, and the state it leaves. Python evaluates line 24 first, then the
  arguments of line 25 from left to right, then calls the method; an exception at any point
  ends the run there. (The method is looked up before its arguments are evaluated and
  called after; as the model evaluates the arguments first, a failing lookup is a failing
  call.) The function is \<open>setup_callback\<close> here and its local variable
  \<^verbatim>\<open>augment\<close> is \<open>aug\<close>.
\<close>

definition setup_callback ::
  "('app, 'aug, 'e, 'r, 'w) sphinx_utils_api \<Rightarrow> 'app \<Rightarrow> 'w build_state \<Rightarrow>
     ('e raised + unit) \<times> ('app, 'aug) call list \<times> 'w build_state" where
  \<open>setup_callback sphinx_utils app s =
     (case augment sphinx_utils app ''programming-guides'' (world s) of
        (Inl e, w1) \<Rightarrow>
          (Inl (External e), [Call_augment app ''programming-guides''], s\<lparr>world := w1\<rparr>)
      | (Inr aug, w1) \<Rightarrow>
          (case py_format
                  ''window.matchMedia("(prefers-color-scheme: dark)").matches ? "{}" : "{}"''
                  [DEFAULT_DARK_SYNTAX_THEME, DEFAULT_LIGHT_SYNTAX_THEME] of
             Inl err \<Rightarrow>
               (Inl (Python err), [Call_augment app ''programming-guides''], s\<lparr>world := w1\<rparr>)
           | Inr default_theme_arg \<Rightarrow>
          (case py_format ''siteThemeId === "dark" ? "{}" : "{}"''
                  [DEFAULT_DARK_SYNTAX_THEME, DEFAULT_LIGHT_SYNTAX_THEME] of
             Inl err \<Rightarrow>
               (Inl (Python err), [Call_augment app ''programming-guides''], s\<lparr>world := w1\<rparr>)
           | Inr default_syntax_theme_arg \<Rightarrow>
          (let args = \<lparr>
                 themes = [
                   [(''id'', ''light''), (''icon'', [CHR 0xE2, CHR 0x98, CHR 0xBC])],
                   [(''id'', ''dark''), (''icon'', [CHR 0xE2, CHR 0x98, CHR 0xBD])]
                 ],
                 syntax_themes = [
                   DEFAULT_LIGHT_SYNTAX_THEME,
                   DEFAULT_DARK_SYNTAX_THEME,
                   ''sphinx_utils.pygments_styles.cobalt2.Cobalt2Style''
                 ],
                 default_theme = default_theme_arg,
                 default_syntax_theme = default_syntax_theme_arg
               \<rparr>;
               trace = [Call_augment app ''programming-guides'', Call_theme_switcher aug args]
           in case theme_switcher sphinx_utils aug args w1 of
                (Inl e, w2) \<Rightarrow> (Inl (External e), trace, s\<lparr>world := w2\<rparr>)
              | (Inr r, w2) \<Rightarrow> (Inr (), trace, s\<lparr>world := w2\<rparr>)))))\<close>

text \<open>Reading a result: what was raised or returned, the external calls, the final state.\<close>

definition outcome :: "'a \<times> 'b \<times> 'c \<Rightarrow> 'a" where
  "outcome r = fst r"

definition trace :: "'a \<times> 'b \<times> 'c \<Rightarrow> 'b" where
  "trace r = fst (snd r)"

definition final_state :: "'a \<times> 'b \<times> 'c \<Rightarrow> 'c" where
  "final_state r = snd (snd r)"

fun theme_switcher_calls :: "('app, 'aug) call list \<Rightarrow> ('aug \<times> theme_switcher_args) list" where
  "theme_switcher_calls [] = []"
| "theme_switcher_calls (Call_theme_switcher aug args # cs) = (aug, args) # theme_switcher_calls cs"
| "theme_switcher_calls (Call_augment app name # cs) = theme_switcher_calls cs"

fun augment_calls :: "('app, 'aug) call list \<Rightarrow> ('app \<times> string) list" where
  "augment_calls [] = []"
| "augment_calls (Call_augment app name # cs) = (app, name) # augment_calls cs"
| "augment_calls (Call_theme_switcher aug args # cs) = augment_calls cs"

subsection \<open>The module-level assignments (lines 13, 14 and 42 to 106)\<close>

text \<open>
  A name read at module level is looked up in the namespace built so far; the two names
  the file reads, \<^verbatim>\<open>author\<close> and \<^verbatim>\<open>version\<close>, are no builtins, so an unbound one
  is a \<^verbatim>\<open>NameError\<close>.
\<close>

definition lookup_name :: "namespace \<Rightarrow> string \<Rightarrow> py_error + pyval" where
  "lookup_name ns n = (case map_of ns n of None \<Rightarrow> Inl (NameError n) | Some v \<Rightarrow> Inr v)"

text \<open>
  The operator \<^verbatim>\<open>+\<close> on the values of \<open>pyval\<close>: concatenation of two strings, two
  lists or two tuples, the sum of integers (a boolean counting as 0 or 1), and a
  \<^verbatim>\<open>TypeError\<close> for every other pair.
\<close>

fun py_add :: "pyval \<Rightarrow> pyval \<Rightarrow> py_error + pyval" where
  "py_add (PyStr a) (PyStr b) = Inr (PyStr (a @ b))"
| "py_add (PyList a) (PyList b) = Inr (PyList (a @ b))"
| "py_add (PyTuple a) (PyTuple b) = Inr (PyTuple (a @ b))"
| "py_add (PyInt a) (PyInt b) = Inr (PyInt (a + b))"
| "py_add (PyInt a) (PyBool b) = Inr (PyInt (a + of_bool b))"
| "py_add (PyBool a) (PyInt b) = Inr (PyInt (of_bool a + b))"
| "py_add (PyBool a) (PyBool b) = Inr (PyInt (of_bool a + of_bool b))"
| "py_add _ _ = Inl TypeError"

text \<open>
  Assignment to a module-level name, as on the dict behind the namespace: a bound name
  keeps its place and takes the new value, a new name goes to the end.
\<close>

fun assign :: "string \<Rightarrow> pyval \<Rightarrow> namespace \<Rightarrow> namespace" where
  "assign n v [] = [(n, v)]"
| "assign n v ((m, u) # ns) = (if m = n then (n, v) # ns else (m, u) # assign n v ns)"

text \<open>
  An assignment statement is its target and its right-hand side, evaluated in the
  namespace at that point. The module body runs its statements in order and stops at the
  first exception.
\<close>

type_synonym rhs = "namespace \<Rightarrow> py_error + pyval"

definition literal :: "pyval \<Rightarrow> rhs" where
  "literal v ns = Inr v"

fun exec_module :: "(string \<times> rhs) list \<Rightarrow> namespace \<Rightarrow> py_error + namespace" where
  "exec_module [] ns = Inr ns"
| "exec_module ((target, rhs) # rest) ns =
     (case rhs ns of Inl e \<Rightarrow> Inl e | Inr v \<Rightarrow> exec_module rest (assign target v ns))"

text \<open>Line 67: \<^verbatim>\<open>copyright = '2020, ' + author\<close>.\<close>

definition copyright_rhs :: rhs where
  "copyright_rhs ns =
     (case lookup_name ns ''author'' of Inl e \<Rightarrow> Inl e | Inr a \<Rightarrow> py_add (PyStr ''2020, '') a)"

text \<open>Line 76: \<^verbatim>\<open>release = version\<close>.\<close>

definition release_rhs :: rhs where
  "release_rhs ns = lookup_name ns ''version''"

text \<open>
  The assignments of the file in source order. \<^verbatim>\<open>sphinx_utils.HTML_THEMES_DIR\<close>
  belongs to the external package: it is the parameter \<open>HTML_THEMES_DIR\<close>, any Python
  value. (The imports are taken to have succeeded and the attribute to exist; a module
  that fails there binds nothing.)
\<close>

definition module_body :: "pyval \<Rightarrow> (string \<times> rhs) list" where
  \<open>module_body HTML_THEMES_DIR = [
     (''DEFAULT_LIGHT_SYNTAX_THEME'', literal (PyStr DEFAULT_LIGHT_SYNTAX_THEME)),
     (''DEFAULT_DARK_SYNTAX_THEME'', literal (PyStr DEFAULT_DARK_SYNTAX_THEME)),
     (''needs_sphinx'', literal (PyStr ''3.0.0'')),
     (''extensions'', literal (PyList [PyStr ''sphinx.ext.intersphinx''])),
     (''intersphinx_mapping'', literal (PyDict
        [(PyStr ''python'', PyTuple [PyStr ''https://docs.python.org/3'', PyNone])])),
     (''templates_path'', literal (PyList [PyStr ''_templates''])),
     (''source_suffix'', literal (PyStr ''.rst'')),
     (''master_doc'', literal (PyStr ''index'')),
     (''project'', literal (PyStr ''programming-advice'')),
     (''author'', literal (PyStr ''Aran-Fey'')),
     (''copyright'', copyright_rhs),
     (''version'', literal (PyStr ''0.1'')),
     (''release'', release_rhs),
     (''language'', literal (PyStr ''en'')),
     (''exclude_patterns'', literal (PyList [])),
     (''todo_include_todos'', literal (PyBool False)),
     (''smartquotes'', literal (PyBool False)),
     (''html_theme'', literal (PyStr ''advice'')),
     (''html_theme_path'', literal (PyList [HTML_THEMES_DIR])),
     (''html_show_copyright'', literal (PyBool False)),
     (''html_show_sphinx'', literal (PyBool False)),
     (''html_title'', literal (PyStr ''Aran-Fey's (python) programming guides'')),
     (''html_favicon'', literal (PyStr ''favicon.png''))
   ]\<close>

text \<open>
  The other statements of the module bind these names: the three imports (lines 7 to 10)
  and the \<^verbatim>\<open>def\<close> of line 17. Their values are modules, a class and a function, which
  the namespace of the model leaves out.
\<close>

definition imported_and_defined :: "string list" where
  "imported_and_defined = [''sphinx_utils'', ''sys'', ''Path'', ''setup'']"

text \<open>Running the module in a fresh namespace, and reading one configuration value of
  the result by name, as the build tool does.\<close>

definition load_module :: "pyval \<Rightarrow> py_error + namespace" where
  "load_module HTML_THEMES_DIR = exec_module (module_body HTML_THEMES_DIR) []"

definition config_value :: "pyval \<Rightarrow> string \<Rightarrow> py_error + pyval" where
  "config_value HTML_THEMES_DIR n =
     (case load_module HTML_THEMES_DIR of Inl e \<Rightarrow> Inl e | Inr ns \<Rightarrow> lookup_name ns n)"

subsection \<open>The arguments \<^verbatim>\<open>setup\<close> passes\<close>

text \<open>
  The value of the argument expressions of lines 26 to 36, both templates filled in. It
  is a name for stating results; that \<open>setup_callback\<close> passes exactly this record is
  lemma \<open>setup_callback_run\<close> below.
\<close>

definition registered_args :: theme_switcher_args where
  \<open>registered_args = \<lparr>
     themes = [
       [(''id'', ''light''), (''icon'', [CHR 0xE2, CHR 0x98, CHR 0xBC])],
       [(''id'', ''dark''), (''icon'', [CHR 0xE2, CHR 0x98, CHR 0xBD])]
     ],
     syntax_themes = [
       ''friendly'',
       ''monokai'',
       ''sphinx_utils.pygments_styles.cobalt2.Cobalt2Style''
     ],
     default_theme =
       ''window.matchMedia("(prefers-color-scheme: dark)").matches ? "monokai" : "friendly"'',
     default_syntax_theme = ''siteThemeId === "dark" ? "monokai" : "friendly"''
   \<rparr>\<close>

text \<open>The order of the calls of a run, without their arguments.\<close>

datatype call_kind = Augment | Theme_switcher

fun kind_of :: "('app, 'aug) call \<Rightarrow> call_kind" where
  "kind_of (Call_augment app name) = Augment"
| "kind_of (Call_theme_switcher aug args) = Theme_switcher"

subsection \<open>The shapes of configuration values\<close>

fun is_str :: "pyval \<Rightarrow> bool" where
  "is_str (PyStr s) = True"
| "is_str v = False"

text \<open>A string, a list of strings, or a boolean.\<close>

fun primitive_shape :: "pyval \<Rightarrow> bool" where
  "primitive_shape (PyStr s) = True"
| "primitive_shape (PyBool b) = True"
| "primitive_shape (PyList xs) = list_all is_str xs"
| "primitive_shape v = False"

text \<open>A string that begins with a dot; a string that is not empty.\<close>

fun is_file_extension :: "pyval \<Rightarrow> bool" where
  "is_file_extension (PyStr (c # s)) = (c = CHR ''.'')"
| "is_file_extension v = False"

fun is_nonempty_name :: "pyval \<Rightarrow> bool" where
  "is_nonempty_name (PyStr s) = (s \<noteq> [])"
| "is_nonempty_name v = False"

subsection \<open>The JavaScript of the two selection expressions\<close>

text \<open>
  \<^verbatim>\<open>default_theme\<close> and \<^verbatim>\<open>default_syntax_theme\<close> are JavaScript source, which the
  generated page evaluates. What such a string evaluates to is given here for the fragment
  of the language the two strings are written in: double-quoted string literals without
  escapes, identifiers, property access, a method call with at most one string literal as
  argument, one \<^verbatim>\<open>===\<close>, and one conditional \<^verbatim>\<open>c ? a : b\<close>. A string outside the
  fragment, and an evaluation that throws, is \<open>None\<close>.
\<close>

datatype js_token =
    TIdent string | TString string | TDot | TLParen | TRParen | TQuestion | TColon | TStrictEq

definition is_ident_start :: "char \<Rightarrow> bool" where
  "is_ident_start c = (c \<in> set ''abcdefghijklmnopqrstuvwxyzABCDEFGHIJKLMNOPQRSTUVWXYZ_$'')"

definition is_ident_part :: "char \<Rightarrow> bool" where
  "is_ident_part c = (is_ident_start c \<or> c \<in> set ''0123456789'')"

text \<open>The lexer reads one character at a time; its mode says what it is inside of
  (\<open>InEquals k\<close>: \<open>k\<close> equals signs of a \<^verbatim>\<open>===\<close> read so far).\<close>

datatype lex_mode = Start | InIdent string | InString string | InEquals nat

definition emit :: "js_token \<Rightarrow> js_token list option \<Rightarrow> js_token list option" where
  "emit t r = map_option ((#) t) r"

function js_lex :: "lex_mode \<Rightarrow> string \<Rightarrow> js_token list option" where
  "js_lex Start [] = Some []"
| "js_lex (InIdent name) [] = Some [TIdent name]"
| "js_lex (InString body) [] = None"
| "js_lex (InEquals k) [] = None"
| "js_lex Start (c # cs) =
     (if c = CHR '' '' then js_lex Start cs
      else if c = CHR 0x22 then js_lex (InString []) cs
      else if is_ident_start c then js_lex (InIdent [c]) cs
      else if c = CHR ''.'' then emit TDot (js_lex Start cs)
      else if c = CHR ''('' then emit TLParen (js_lex Start cs)
      else if c = CHR '')'' then emit TRParen (js_lex Start cs)
      else if c = CHR ''?'' then emit TQuestion (js_lex Start cs)
      else if c = CHR '':'' then emit TColon (js_lex Start cs)
      else if c = CHR ''='' then js_lex (InEquals 1) cs
      else None)"
| "js_lex (InIdent name) (c # cs) =
     (if is_ident_part c then js_lex (InIdent (name @ [c])) cs
      else emit (TIdent name) (js_lex Start (c # cs)))"
| "js_lex (InString body) (c # cs) =
     (if c = CHR 0x22 then emit (TString body) (js_lex Start cs)
      else if c = CHR 0x5C \<or> c = CHR 0x0A \<or> c = CHR 0x0D then None
      else js_lex (InString (body @ [c])) cs)"
| "js_lex (InEquals k) (c # cs) =
     (if c = CHR ''='' then
        (if k = 2 then emit TStrictEq (js_lex Start cs) else js_lex (InEquals (Suc k)) cs)
      else None)"
  by pat_completeness auto
termination
  by (relation "measure (\<lambda>(m, src). 2 * length src + (if m = Start then 0 else 1))") auto

datatype js_expr =
    StrLit string
  | Ident string
  | Member js_expr string
  | Call js_expr "js_expr list"
  | StrictEq js_expr js_expr
  | Cond js_expr js_expr js_expr

fun parse_suffixes :: "js_expr \<Rightarrow> js_token list \<Rightarrow> js_expr \<times> js_token list" where
  "parse_suffixes e (TDot # TIdent n # ts) = parse_suffixes (Member e n) ts"
| "parse_suffixes e (TLParen # TRParen # ts) = parse_suffixes (Call e []) ts"
| "parse_suffixes e (TLParen # TString a # TRParen # ts) = parse_suffixes (Call e [StrLit a]) ts"
| "parse_suffixes e ts = (e, ts)"

text \<open>A reserved word, or the name of a value property of the global object, is no
  variable: an expression that starts with one is outside the fragment.\<close>

definition is_reserved :: "string \<Rightarrow> bool" where
  "is_reserved x = (x \<in> set [
     ''await'', ''break'', ''case'', ''catch'', ''class'', ''const'', ''continue'',
     ''debugger'', ''default'', ''delete'', ''do'', ''else'', ''enum'', ''export'',
     ''extends'', ''false'', ''finally'', ''for'', ''function'', ''if'', ''implements'',
     ''import'', ''in'', ''instanceof'', ''interface'', ''let'', ''new'', ''null'',
     ''package'', ''private'', ''protected'', ''public'', ''return'', ''static'', ''super'',
     ''switch'', ''this'', ''throw'', ''true'', ''try'', ''typeof'', ''var'', ''void'',
     ''while'', ''with'', ''yield'',
     ''undefined'', ''NaN'', ''Infinity'', ''globalThis''])"

fun parse_postfix :: "js_token list \<Rightarrow> (js_expr \<times> js_token list) option" where
  "parse_postfix (TIdent x # ts) =
     (if is_reserved x then None else Some (parse_suffixes (Ident x) ts))"
| "parse_postfix (TString a # ts) = Some (parse_suffixes (StrLit a) ts)"
| "parse_postfix ts = None"

definition parse_equality :: "js_token list \<Rightarrow> (js_expr \<times> js_token list) option" where
  "parse_equality ts =
     (case parse_postfix ts of
        None \<Rightarrow> None
      | Some (l, TStrictEq # ts1) \<Rightarrow>
          (case parse_postfix ts1 of
             None \<Rightarrow> None
           | Some (r, ts2) \<Rightarrow> Some (StrictEq l r, ts2))
      | Some (l, ts1) \<Rightarrow> Some (l, ts1))"

definition parse_conditional :: "js_token list \<Rightarrow> (js_expr \<times> js_token list) option" where
  "parse_conditional ts =
     (case parse_equality ts of
        None \<Rightarrow> None
      | Some (c, TQuestion # ts1) \<Rightarrow>
          (case parse_equality ts1 of
             Some (a, TColon # ts2) \<Rightarrow>
               (case parse_equality ts2 of
                  None \<Rightarrow> None
                | Some (b, ts3) \<Rightarrow> Some (Cond c a b, ts3))
           | _ \<Rightarrow> None)
      | Some (c, ts1) \<Rightarrow> Some (c, ts1))"

definition js_parse :: "string \<Rightarrow> js_expr option" where
  "js_parse src =
     (case js_lex Start src of
        None \<Rightarrow> None
      | Some ts \<Rightarrow> (case parse_conditional ts of Some (e, []) \<Rightarrow> Some e | _ \<Rightarrow> None))"

text \<open>
  The values, and the page the expression runs in: which media queries match at the
  moment, and the variables in scope. \<^verbatim>\<open>window\<close> is the global object;
  \<^verbatim>\<open>window.matchMedia(q)\<close> is a media query list for \<open>q\<close>, whose property
  \<^verbatim>\<open>matches\<close> says whether \<open>q\<close> matches.
\<close>

datatype js_value =
    JString string | JBoolean bool | JUndefined | JNull | JWindow | JMediaQueryList string

record js_host =
  media_matches :: "string \<Rightarrow> bool"
  variables :: "string \<Rightarrow> js_value option"

fun truthy :: "js_value \<Rightarrow> bool" where
  "truthy (JString s) = (s \<noteq> [])"
| "truthy (JBoolean b) = b"
| "truthy JUndefined = False"
| "truthy JNull = False"
| "truthy JWindow = True"
| "truthy (JMediaQueryList q) = True"

text \<open>Strict equality: values of different types are unequal. Two media query lists are
  equal when they are the same object, which the values do not record: \<open>None\<close>.\<close>

fun strict_equals :: "js_value \<Rightarrow> js_value \<Rightarrow> bool option" where
  "strict_equals (JString a) (JString b) = Some (a = b)"
| "strict_equals (JBoolean a) (JBoolean b) = Some (a = b)"
| "strict_equals JUndefined JUndefined = Some True"
| "strict_equals JNull JNull = Some True"
| "strict_equals JWindow JWindow = Some True"
| "strict_equals (JMediaQueryList p) (JMediaQueryList q) = None"
| "strict_equals x y = Some False"

fun js_eval :: "js_host \<Rightarrow> js_expr \<Rightarrow> js_value option" where
  "js_eval h (StrLit s) = Some (JString s)"
| "js_eval h (Ident x) = (if x = ''window'' then Some JWindow else variables h x)"
| "js_eval h (Member e n) =
     (case js_eval h e of
        Some (JMediaQueryList q) \<Rightarrow>
          if n = ''matches'' then Some (JBoolean (media_matches h q)) else None
      | _ \<Rightarrow> None)"
| "js_eval h (Call (Member e n) [a]) =
     (case js_eval h e of
        Some JWindow \<Rightarrow>
          (case js_eval h a of
             Some (JString q) \<Rightarrow> if n = ''matchMedia'' then Some (JMediaQueryList q) else None
           | _ \<Rightarrow> None)
      | _ \<Rightarrow> None)"
| "js_eval h (Call f args) = None"
| "js_eval h (StrictEq a b) =
     (case js_eval h a of
        None \<Rightarrow> None
      | Some x \<Rightarrow>
          (case js_eval h b of
             None \<Rightarrow> None
           | Some y \<Rightarrow> map_option JBoolean (strict_equals x y)))"
| "js_eval h (Cond c a b) =
     (case js_eval h c of
        None \<Rightarrow> None
      | Some v \<Rightarrow> if truthy v then js_eval h a else js_eval h b)"

definition js_run :: "js_host \<Rightarrow> string \<Rightarrow> js_value option" where
  "js_run h src = (case js_parse src of None \<Rightarrow> None | Some e \<Rightarrow> js_eval h e)"

subsection \<open>Concrete environments\<close>

text \<open>
  Two stand-ins for the external package, to run \<open>setup_callback\<close> on. The state of the
  build tool is a counter. In \<open>raising_api\<close> the call of \<^verbatim>\<open>augment\<close> raises. In
  \<open>counting_api\<close> it returns an augment object known by its name, and both calls
  advance the counter.
\<close>

definition raising_api :: "(unit, string, string, unit, nat) sphinx_utils_api" where
  "raising_api = \<lparr>
     augment = (\<lambda>app name w. (Inl ''unknown augment'', Suc w)),
     theme_switcher = (\<lambda>aug args w. (Inr (), Suc w))
   \<rparr>"

definition counting_api :: "(unit, string, string, unit, nat) sphinx_utils_api" where
  "counting_api = \<lparr>
     augment = (\<lambda>app name w. (Inr name, Suc w)),
     theme_switcher = (\<lambda>aug args w. (Inr (), Suc w))
   \<rparr>"


definition fresh_build :: "nat build_state" where
  "fresh_build = \<lparr>globals = [], world = 0\<rparr>"

text \<open>Two pages: one on a system that prefers dark with the site theme \<^verbatim>\<open>dark\<close>, one
  on a system that does not with the site theme \<^verbatim>\<open>light\<close>.\<close>

definition dark_page :: js_host where
  "dark_page = \<lparr>
     media_matches = (\<lambda>q. q = ''(prefers-color-scheme: dark)''),
     variables = [''siteThemeId'' \<mapsto> JString ''dark'']
   \<rparr>"

definition light_page :: js_host where
  "light_page = \<lparr>
     media_matches = (\<lambda>q. False),
     variables = [''siteThemeId'' \<mapsto> JString ''light'']
   \<rparr>"

section \<open>Results\<close>

subsection \<open>What a run of \<^verbatim>\<open>setup\<close> does\<close>

lemma default_theme_format:
  \<open>py_format ''window.matchMedia("(prefers-color-scheme: dark)").matches ? "{}" : "{}"''
      [DEFAULT_DARK_SYNTAX_THEME, DEFAULT_LIGHT_SYNTAX_THEME] =
    Inr ''window.matchMedia("(prefers-color-scheme: dark)").matches ? "monokai" : "friendly"''\<close>
  by (simp add: prepend_def DEFAULT_DARK_SYNTAX_THEME_def DEFAULT_LIGHT_SYNTAX_THEME_def)

lemma default_syntax_theme_format:
  \<open>py_format ''siteThemeId === "dark" ? "{}" : "{}"''
      [DEFAULT_DARK_SYNTAX_THEME, DEFAULT_LIGHT_SYNTAX_THEME] =
    Inr ''siteThemeId === "dark" ? "monokai" : "friendly"''\<close>
  by (simp add: prepend_def DEFAULT_DARK_SYNTAX_THEME_def DEFAULT_LIGHT_SYNTAX_THEME_def)

text \<open>Neither template raises, so a run is the two external calls and nothing else.\<close>

lemma setup_callback_run:
  "setup_callback api app s =
     (case augment api app ''programming-guides'' (world s) of
        (Inl e, w1) \<Rightarrow>
          (Inl (External e), [Call_augment app ''programming-guides''], s\<lparr>world := w1\<rparr>)
      | (Inr aug, w1) \<Rightarrow>
          (case theme_switcher api aug registered_args w1 of
             (Inl e, w2) \<Rightarrow>
               (Inl (External e),
                [Call_augment app ''programming-guides'', Call_theme_switcher aug registered_args],
                s\<lparr>world := w2\<rparr>)
           | (Inr r, w2) \<Rightarrow>
               (Inr (),
                [Call_augment app ''programming-guides'', Call_theme_switcher aug registered_args],
                s\<lparr>world := w2\<rparr>)))"
  unfolding setup_callback_def default_theme_format default_syntax_theme_format
  by (simp add: registered_args_def DEFAULT_DARK_SYNTAX_THEME_def DEFAULT_LIGHT_SYNTAX_THEME_def
      Let_def split: prod.splits sum.splits)

lemma setup_callback_trace:
  "trace (setup_callback api app s) =
     Call_augment app ''programming-guides'' #
       (case fst (augment api app ''programming-guides'' (world s)) of
          Inl e \<Rightarrow> []
        | Inr aug \<Rightarrow> [Call_theme_switcher aug registered_args])"
  by (simp add: setup_callback_run trace_def split: prod.splits sum.splits)

lemma setup_callback_outcome:
  "outcome (setup_callback api app s) =
     (case augment api app ''programming-guides'' (world s) of
        (Inl e, w1) \<Rightarrow> Inl (External e)
      | (Inr aug, w1) \<Rightarrow>
          (case fst (theme_switcher api aug registered_args w1) of
             Inl e \<Rightarrow> Inl (External e)
           | Inr r \<Rightarrow> Inr ()))"
  by (simp add: setup_callback_run outcome_def split: prod.splits sum.splits)

lemma setup_callback_globals:
  "globals (final_state (setup_callback api app s)) = globals s"
  by (simp add: setup_callback_run final_state_def split: prod.splits sum.splits)

subsection \<open>The registration call\<close>

text \<open>
  C1, as the code has it. The theme switcher is registered exactly once, on the object
  \<^verbatim>\<open>sphinx_utils.augment\<close> returned, when that call returns; when it raises, line 25 is
  never reached and the theme switcher is not registered at all. The arguments are the
  same fixed record in every run: two theme descriptors with the ids \<^verbatim>\<open>light\<close> and
  \<^verbatim>\<open>dark\<close>, each with an icon, three syntax themes, and the two JavaScript expressions.
\<close>

theorem setup_registers_theme_switcher:
  \<open>theme_switcher_calls (trace (setup_callback api app s)) =
     (case fst (augment api app ''programming-guides'' (world s)) of
        Inl e \<Rightarrow> []
      | Inr aug \<Rightarrow> [(aug, registered_args)])
   \<and> length (themes registered_args) = 2
   \<and> map (\<lambda>d. map_of d ''id'') (themes registered_args) = [Some ''light'', Some ''dark'']
   \<and> list_all (\<lambda>d. map_of d ''icon'' \<noteq> None) (themes registered_args)
   \<and> length (syntax_themes registered_args) = 3
   \<and> default_theme registered_args =
       ''window.matchMedia("(prefers-color-scheme: dark)").matches ? "monokai" : "friendly"''
   \<and> default_syntax_theme registered_args = ''siteThemeId === "dark" ? "monokai" : "friendly"''\<close>
  by (simp add: setup_callback_trace registered_args_def split: sum.splits)

text \<open>
  C1 as stated ("exactly once", for every application handle) fails where the call of
  \<^verbatim>\<open>augment\<close> raises: the run of \<open>raising_api\<close> registers no theme switcher.
\<close>

theorem setup_registers_exactly_once_counterexample:
  "length (theme_switcher_calls (trace (setup_callback raising_api () fresh_build))) \<noteq> 1"
  by (simp add: setup_callback_trace raising_api_def fresh_build_def)

subsection \<open>Exceptions\<close>

text \<open>
  C4. \<^verbatim>\<open>setup\<close> raises if and only if one of the two external calls raises; what it
  raises is then the exception of that call, unchanged, and never an exception of its own
  (neither template raises). It catches nothing: an exception of either call always ends
  the run.
\<close>

theorem setup_raises_what_the_package_raises:
  "((\<exists>x. outcome (setup_callback api app s) = Inl x) \<longleftrightarrow>
      ((\<exists>e w1. augment api app ''programming-guides'' (world s) = (Inl e, w1)) \<or>
       (\<exists>aug w1 e. augment api app ''programming-guides'' (world s) = (Inr aug, w1) \<and>
          fst (theme_switcher api aug registered_args w1) = Inl e)))
   \<and> outcome (setup_callback api app s) =
       (case augment api app ''programming-guides'' (world s) of
          (Inl e, w1) \<Rightarrow> Inl (External e)
        | (Inr aug, w1) \<Rightarrow>
            (case fst (theme_switcher api aug registered_args w1) of
               Inl e \<Rightarrow> Inl (External e)
             | Inr r \<Rightarrow> Inr ()))
   \<and> (\<forall>err. outcome (setup_callback api app s) \<noteq> Inl (Python err))"
  by (auto simp add: setup_callback_outcome split: prod.splits sum.splits)

subsection \<open>Control flow\<close>

text \<open>
  C5. Every run makes the same calls in the same order, whatever the handle and the state:
  the call of \<^verbatim>\<open>augment\<close>, then the call of \<^verbatim>\<open>theme_switcher\<close> with the fixed
  arguments. The sequence is cut short only where the first call raises; no call is
  repeated, and the theme switcher is registered at most once.
\<close>

theorem setup_straight_line:
  "trace (setup_callback api app s) =
     Call_augment app ''programming-guides'' #
       (case fst (augment api app ''programming-guides'' (world s)) of
          Inl e \<Rightarrow> []
        | Inr aug \<Rightarrow> [Call_theme_switcher aug registered_args])
   \<and> prefix (map kind_of (trace (setup_callback api app s))) [Augment, Theme_switcher]
   \<and> length (augment_calls (trace (setup_callback api app s))) = 1
   \<and> length (theme_switcher_calls (trace (setup_callback api app s))) \<le> 1"
  by (simp add: setup_callback_trace split: sum.splits)

subsection \<open>Determinism\<close>




subsection \<open>The module-level configuration\<close>

text \<open>A name that is not bound yet goes to the end of the namespace.\<close>

lemma assign_fresh: "n \<notin> fst ` set ns \<Longrightarrow> assign n v ns = ns @ [(n, v)]"
  by (induction ns) auto

lemma lookup_assign: "lookup_name (assign n v ns) n = Inr v"
  by (induction ns) (auto simp add: lookup_name_def)

text \<open>
  A module body whose targets are distinct and not bound before only appends: the
  namespace after its first \<open>k\<close> statements is the old namespace and the first \<open>k\<close> of the
  new bindings, as they are at the end.
\<close>

lemma exec_module_appends:
  "exec_module body ns0 = Inr ns \<Longrightarrow> distinct (map fst ns0 @ map fst body) \<Longrightarrow>
     \<exists>new. ns = ns0 @ new \<and> map fst new = map fst body \<and>
       (\<forall>k. exec_module (take k body) ns0 = Inr (ns0 @ take k new))"
proof (induction body arbitrary: ns0)
  case Nil
  then show ?case by simp
next
  case (Cons st rest)
  obtain target rhs where st: "st = (target, rhs)" by (cases st)
  from Cons.prems(1) st obtain v where v: "rhs ns0 = Inr v"
    and run: "exec_module rest (assign target v ns0) = Inr ns"
    by (auto split: sum.splits)
  from Cons.prems(2) st have fresh: "target \<notin> fst ` set ns0" by auto
  then have grown: "assign target v ns0 = ns0 @ [(target, v)]" by (rule assign_fresh)
  from Cons.prems(2) st have "distinct (map fst (ns0 @ [(target, v)]) @ map fst rest)" by auto
  with Cons.IH [of "ns0 @ [(target, v)]"] run grown
  obtain new where new: "ns = (ns0 @ [(target, v)]) @ new" "map fst new = map fst rest"
    and steps: "\<forall>k. exec_module (take k rest) (ns0 @ [(target, v)]) =
                  Inr ((ns0 @ [(target, v)]) @ take k new)"
    by auto
  have "exec_module (take k (st # rest)) ns0 = Inr (ns0 @ take k ((target, v) # new))" for k
  proof (cases k)
    case 0
    then show ?thesis by simp
  next
    case (Suc j)
    with steps st v grown show ?thesis by simp
  qed
  with new st show ?case by (intro exI [of _ "(target, v) # new"]) simp
qed

lemma module_body_targets:
  "map fst (module_body H) =
     [''DEFAULT_LIGHT_SYNTAX_THEME'', ''DEFAULT_DARK_SYNTAX_THEME'', ''needs_sphinx'',
      ''extensions'', ''intersphinx_mapping'', ''templates_path'', ''source_suffix'',
      ''master_doc'', ''project'', ''author'', ''copyright'', ''version'', ''release'',
      ''language'', ''exclude_patterns'', ''todo_include_todos'', ''smartquotes'',
      ''html_theme'', ''html_theme_path'', ''html_show_copyright'', ''html_show_sphinx'',
      ''html_title'', ''html_favicon'']"
  by (simp add: module_body_def)

lemma module_names_distinct: "distinct (imported_and_defined @ map fst (module_body H))"
  unfolding module_body_targets imported_and_defined_def by simp

text \<open>The module loads without an exception, into this namespace.\<close>

lemma load_module_value:
  \<open>load_module H = Inr
     [(''DEFAULT_LIGHT_SYNTAX_THEME'', PyStr ''friendly''),
      (''DEFAULT_DARK_SYNTAX_THEME'', PyStr ''monokai''),
      (''needs_sphinx'', PyStr ''3.0.0''),
      (''extensions'', PyList [PyStr ''sphinx.ext.intersphinx'']),
      (''intersphinx_mapping'',
         PyDict [(PyStr ''python'', PyTuple [PyStr ''https://docs.python.org/3'', PyNone])]),
      (''templates_path'', PyList [PyStr ''_templates'']),
      (''source_suffix'', PyStr ''.rst''),
      (''master_doc'', PyStr ''index''),
      (''project'', PyStr ''programming-advice''),
      (''author'', PyStr ''Aran-Fey''),
      (''copyright'', PyStr ''2020, Aran-Fey''),
      (''version'', PyStr ''0.1''),
      (''release'', PyStr ''0.1''),
      (''language'', PyStr ''en''),
      (''exclude_patterns'', PyList []),
      (''todo_include_todos'', PyBool False),
      (''smartquotes'', PyBool False),
      (''html_theme'', PyStr ''advice''),
      (''html_theme_path'', PyList [H]),
      (''html_show_copyright'', PyBool False),
      (''html_show_sphinx'', PyBool False),
      (''html_title'', PyStr ''Aran-Fey's (python) programming guides''),
      (''html_favicon'', PyStr ''favicon.png'')]\<close>
  by (simp add: load_module_def module_body_def literal_def copyright_rhs_def release_rhs_def
      lookup_name_def DEFAULT_LIGHT_SYNTAX_THEME_def DEFAULT_DARK_SYNTAX_THEME_def)

text \<open>
  C3, as the code has it. Every value the module binds is a string, a list of strings or
  a boolean, but for two: \<^verbatim>\<open>intersphinx_mapping\<close> is a dict, from \<^verbatim>\<open>'python'\<close> to a
  tuple of a string and \<^verbatim>\<open>None\<close>, and \<^verbatim>\<open>html_theme_path\<close> is a list of one element,
  the external value \<^verbatim>\<open>sphinx_utils.HTML_THEMES_DIR\<close>, so a list of strings exactly when
  that value is a string.
\<close>

theorem configuration_shapes:
  \<open>(\<exists>ns. load_module H = Inr ns \<and>
      list_all
        (\<lambda>(n, v). primitive_shape v \<or> n = ''intersphinx_mapping'' \<or> n = ''html_theme_path'')
        ns)
   \<and> config_value H ''intersphinx_mapping'' =
        Inr (PyDict [(PyStr ''python'', PyTuple [PyStr ''https://docs.python.org/3'', PyNone])])
   \<and> config_value H ''html_theme_path'' = Inr (PyList [H])
   \<and> primitive_shape (PyList [H]) = is_str H\<close>
  by (simp add: load_module_value config_value_def lookup_name_def)

text \<open>
  C3 as stated fails at line 50: the value of \<^verbatim>\<open>intersphinx_mapping\<close> is none of a
  string, a list of strings and a boolean.
\<close>

theorem intersphinx_mapping_shape_counterexample:
  "map_sum id primitive_shape (config_value (PyStr ''_themes'') ''intersphinx_mapping'') =
     Inr False"
  by (simp add: load_module_value config_value_def lookup_name_def)

text \<open>
  C6. Read by name, \<^verbatim>\<open>source_suffix\<close> is the string \<^verbatim>\<open>.rst\<close>, which begins with a dot,
  and \<^verbatim>\<open>html_theme\<close> is the string \<^verbatim>\<open>advice\<close>, which is not empty.
\<close>

theorem schema_instances:
  "config_value H ''source_suffix'' = Inr (PyStr ''.rst'')
   \<and> map_sum id is_file_extension (config_value H ''source_suffix'') = Inr True
   \<and> config_value H ''html_theme'' = Inr (PyStr ''advice'')
   \<and> map_sum id is_nonempty_name (config_value H ''html_theme'') = Inr True"
  by (simp add: load_module_value config_value_def lookup_name_def)

text \<open>
  C7. No name is bound twice by the module: the targets of the assignments are distinct
  from each other and from the names the imports and the \<^verbatim>\<open>def\<close> bind. So loading only
  ever adds to the namespace: after the first \<open>k\<close> assignments it holds the first \<open>k\<close>
  bindings of the final namespace, with their final values. And a run of \<^verbatim>\<open>setup\<close>
  leaves the namespace as it found it: it assigns only its local variable, and what it
  hands to the external calls is built from new literals and the two theme names, which are
  immutable strings.
\<close>

theorem configuration_never_mutated:
  "distinct (imported_and_defined @ map fst (module_body H))
   \<and> (\<exists>ns. load_module H = Inr ns \<and> map fst ns = map fst (module_body H) \<and>
         (\<forall>k. exec_module (take k (module_body H)) [] = Inr (take k ns)))
   \<and> globals (final_state (setup_callback api app s)) = globals s"
proof -
  obtain ns where ns: "load_module H = Inr ns"
    by (simp add: load_module_value)
  have "distinct (map fst ([] :: namespace) @ map fst (module_body H))"
    using module_names_distinct [of H] by simp
  with ns exec_module_appends [of "module_body H" "[]" ns]
  have "map fst ns = map fst (module_body H) \<and>
         (\<forall>k. exec_module (take k (module_body H)) [] = Inr (take k ns))"
    by (auto simp add: load_module_def)
  with ns module_names_distinct [of H] setup_callback_globals [of api app s]
  show ?thesis by blast
qed

text \<open>
  C10. Line 67 binds \<^verbatim>\<open>copyright\<close> to \<^verbatim>\<open>'2020, '\<close> followed by the value of
  \<^verbatim>\<open>author\<close>: in any namespace that binds \<^verbatim>\<open>author\<close> to a string \<open>a\<close>, the right-hand
  side evaluates to \<^verbatim>\<open>'2020, '\<close> followed by \<open>a\<close>, the assignment binds \<^verbatim>\<open>copyright\<close> to
  it, and \<open>a\<close> is a suffix of it.
\<close>

theorem copyright_ends_with_author:
  "lookup_name ns ''author'' = Inr (PyStr a) \<Longrightarrow>
     copyright_rhs ns = Inr (PyStr (''2020, '' @ a))
     \<and> (\<exists>ns'. exec_module [(''copyright'', copyright_rhs)] ns = Inr ns' \<and>
           lookup_name ns' ''copyright'' = Inr (PyStr (''2020, '' @ a)))
     \<and> suffix a (''2020, '' @ a)
     \<and> map_of (module_body H) ''copyright'' = Some copyright_rhs"
  by (simp add: copyright_rhs_def lookup_assign module_body_def suffix_def)

text \<open>With the author of line 66.\<close>

theorem copyright_ends_with_author_witness:
  "lookup_name [(''author'', PyStr ''Aran-Fey'')] ''author'' = Inr (PyStr ''Aran-Fey'')
   \<and> copyright_rhs [(''author'', PyStr ''Aran-Fey'')] = Inr (PyStr ''2020, Aran-Fey'')
   \<and> suffix ''Aran-Fey'' ''2020, Aran-Fey''"
proof -
  have h: "lookup_name [(''author'', PyStr ''Aran-Fey'')] ''author'' = Inr (PyStr ''Aran-Fey'')"
    by (simp add: lookup_name_def)
  show ?thesis
    using h copyright_ends_with_author [OF h] by simp
qed

subsection \<open>The selection expressions\<close>

lemma registered_call_args:
  "(aug, args) \<in> set (theme_switcher_calls (trace (setup_callback api app s))) \<Longrightarrow>
     args = registered_args"
  by (simp add: setup_callback_trace split: sum.splits)

lemma counting_api_registers:
  "(''programming-guides'', registered_args) \<in>
     set (theme_switcher_calls (trace (setup_callback counting_api () fresh_build)))"
  by (simp add: setup_callback_trace counting_api_def)

text \<open>Both strings are in the fragment; these are their syntax trees.\<close>

lemma default_theme_parse:
  \<open>js_parse (default_theme registered_args) =
     Some (Cond
       (Member
          (Call (Member (Ident ''window'') ''matchMedia'')
             [StrLit ''(prefers-color-scheme: dark)''])
          ''matches'')
       (StrLit ''monokai'') (StrLit ''friendly''))\<close>
  by (simp add: registered_args_def js_parse_def parse_conditional_def parse_equality_def
      emit_def is_ident_start_def is_ident_part_def is_reserved_def)

lemma default_syntax_theme_parse:
  \<open>js_parse (default_syntax_theme registered_args) =
     Some (Cond (StrictEq (Ident ''siteThemeId'') (StrLit ''dark''))
       (StrLit ''monokai'') (StrLit ''friendly''))\<close>
  by (simp add: registered_args_def js_parse_def parse_conditional_def parse_equality_def
      emit_def is_ident_start_def is_ident_part_def is_reserved_def)

lemma strict_equals_string: "strict_equals x (JString t) = Some (x = JString t)"
  by (cases x) auto

lemma default_theme_run:
  "js_run h (default_theme registered_args) =
     Some (JString (if media_matches h ''(prefers-color-scheme: dark)''
                    then ''monokai'' else ''friendly''))"
  by (simp add: js_run_def default_theme_parse)

text \<open>Where \<^verbatim>\<open>siteThemeId\<close> is not bound, evaluating the second expression throws.\<close>

lemma default_syntax_theme_run:
  "js_run h (default_syntax_theme registered_args) =
     (case variables h ''siteThemeId'' of
        None \<Rightarrow> None
      | Some v \<Rightarrow> Some (JString (if v = JString ''dark'' then ''monokai'' else ''friendly'')))"
  by (simp add: js_run_def default_syntax_theme_parse strict_equals_string split: option.splits)

text \<open>
  C2. Of the arguments of a registration, \<^verbatim>\<open>default_theme\<close> evaluates to the dark syntax
  theme, \<^verbatim>\<open>monokai\<close>, on a page where the media query \<^verbatim>\<open>(prefers-color-scheme: dark)\<close>
  matches, and to the light one, \<^verbatim>\<open>friendly\<close>, where it does not;
  \<^verbatim>\<open>default_syntax_theme\<close> evaluates, on a page that binds \<^verbatim>\<open>siteThemeId\<close>, to the dark
  syntax theme where its value is the string \<^verbatim>\<open>dark\<close> and to the light one for every
  other value.
\<close>

theorem selection_expressions:
  "(aug, args) \<in> set (theme_switcher_calls (trace (setup_callback api app s))) \<Longrightarrow>
     js_run h (default_theme args) =
       Some (JString (if media_matches h ''(prefers-color-scheme: dark)''
                      then DEFAULT_DARK_SYNTAX_THEME else DEFAULT_LIGHT_SYNTAX_THEME))
     \<and> (\<forall>v. variables h ''siteThemeId'' = Some v \<longrightarrow>
           js_run h (default_syntax_theme args) =
             Some (JString (if v = JString ''dark''
                            then DEFAULT_DARK_SYNTAX_THEME else DEFAULT_LIGHT_SYNTAX_THEME)))
     \<and> DEFAULT_DARK_SYNTAX_THEME = ''monokai''
     \<and> DEFAULT_LIGHT_SYNTAX_THEME = ''friendly''"
  by (simp add: registered_call_args [of aug args api app s] default_theme_run
      default_syntax_theme_run DEFAULT_DARK_SYNTAX_THEME_def DEFAULT_LIGHT_SYNTAX_THEME_def)

text \<open>The registration of a run of \<open>counting_api\<close>, evaluated on the two pages.\<close>

theorem selection_expressions_witness:
  "(''programming-guides'', registered_args) \<in>
     set (theme_switcher_calls (trace (setup_callback counting_api () fresh_build)))
   \<and> js_run dark_page (default_theme registered_args) = Some (JString ''monokai'')
   \<and> js_run light_page (default_theme registered_args) = Some (JString ''friendly'')
   \<and> variables dark_page ''siteThemeId'' = Some (JString ''dark'')
   \<and> js_run dark_page (default_syntax_theme registered_args) = Some (JString ''monokai'')
   \<and> variables light_page ''siteThemeId'' = Some (JString ''light'')
   \<and> js_run light_page (default_syntax_theme registered_args) = Some (JString ''friendly'')"
proof -
  have reg: "(''programming-guides'', registered_args) \<in>
     set (theme_switcher_calls (trace (setup_callback counting_api () fresh_build)))"
    by (rule counting_api_registers)
  have dark: "variables dark_page ''siteThemeId'' = Some (JString ''dark'')"
    by (simp add: dark_page_def)
  have light: "variables light_page ''siteThemeId'' = Some (JString ''light'')"
    by (simp add: light_page_def)
  show ?thesis
    using reg dark light
      selection_expressions [OF reg, of dark_page]
      selection_expressions [OF reg, of light_page]
    by (simp add: dark_page_def light_page_def)
qed

text \<open>
  C9. The arguments of a registration agree with each other. Whatever either expression
  evaluates to, on any page, is \<^verbatim>\<open>monokai\<close> or \<^verbatim>\<open>friendly\<close> and is one of the
  \<^verbatim>\<open>syntax_themes\<close> of the same call. The second expression compares \<^verbatim>\<open>siteThemeId\<close>
  with \<^verbatim>\<open>dark\<close>, which is the id of one of the two theme descriptors of the call.
\<close>

theorem registered_configuration_consistent:
  "(aug, args) \<in> set (theme_switcher_calls (trace (setup_callback api app s))) \<Longrightarrow>
     (\<forall>h v. js_run h (default_theme args) = Some v \<longrightarrow>
        (\<exists>n. v = JString n \<and> (n = ''monokai'' \<or> n = ''friendly'') \<and>
           n \<in> set (syntax_themes args)))
     \<and> (\<forall>h v. js_run h (default_syntax_theme args) = Some v \<longrightarrow>
        (\<exists>n. v = JString n \<and> (n = ''monokai'' \<or> n = ''friendly'') \<and>
           n \<in> set (syntax_themes args)))
     \<and> DEFAULT_DARK_SYNTAX_THEME \<in> set (syntax_themes args)
     \<and> DEFAULT_LIGHT_SYNTAX_THEME \<in> set (syntax_themes args)
     \<and> (\<exists>a b. js_parse (default_syntax_theme args) =
           Some (Cond (StrictEq (Ident ''siteThemeId'') (StrLit ''dark'')) a b))
     \<and> Some ''dark'' \<in> set (map (\<lambda>d. map_of d ''id'') (themes args))
     \<and> length (themes args) = 2"
proof -
  assume "(aug, args) \<in> set (theme_switcher_calls (trace (setup_callback api app s)))"
  then have args: "args = registered_args" by (rule registered_call_args)
  have lists: "syntax_themes registered_args =
      [''friendly'', ''monokai'', ''sphinx_utils.pygments_styles.cobalt2.Cobalt2Style'']"
    "map (\<lambda>d. map_of d ''id'') (themes registered_args) = [Some ''light'', Some ''dark'']"
    by (simp_all add: registered_args_def)
  show ?thesis
    unfolding args default_theme_run default_syntax_theme_run default_syntax_theme_parse lists
    by (auto simp add: DEFAULT_DARK_SYNTAX_THEME_def DEFAULT_LIGHT_SYNTAX_THEME_def
        registered_args_def split: option.splits)
qed

text \<open>Both names are reached: one on each page.\<close>

theorem registered_configuration_consistent_witness:
  "(''programming-guides'', registered_args) \<in>
     set (theme_switcher_calls (trace (setup_callback counting_api () fresh_build)))
   \<and> js_run dark_page (default_theme registered_args) = Some (JString ''monokai'')
   \<and> ''monokai'' \<in> set (syntax_themes registered_args)
   \<and> js_run light_page (default_syntax_theme registered_args) = Some (JString ''friendly'')
   \<and> ''friendly'' \<in> set (syntax_themes registered_args)
   \<and> Some ''dark'' \<in> set (map (\<lambda>d. map_of d ''id'') (themes registered_args))"
proof -
  have reg: "(''programming-guides'', registered_args) \<in>
     set (theme_switcher_calls (trace (setup_callback counting_api () fresh_build)))"
    by (rule counting_api_registers)
  have dark: "js_run dark_page (default_theme registered_args) = Some (JString ''monokai'')"
    by (simp add: default_theme_run dark_page_def)
  have light:
    "js_run light_page (default_syntax_theme registered_args) = Some (JString ''friendly'')"
    by (simp add: default_syntax_theme_run light_page_def)
  show ?thesis
    using reg dark light registered_configuration_consistent [OF reg]
    by (simp add: DEFAULT_DARK_SYNTAX_THEME_def DEFAULT_LIGHT_SYNTAX_THEME_def)
qed

end
